theory Spec2Isabelle
  imports Main
begin

section \<open>Strings and numbers of the host language\<close>

text \<open>
  The assistant of the portfolio site lives in \<^verbatim>\<open>src/app/components/ChatWidget.tsx\<close>.
  Its JavaScript strings are modelled as HOL strings holding UTF-8 text. The built-in
  string operations the widget calls are modelled on ASCII: \<^verbatim>\<open>toLowerCase\<close> maps
  \<^verbatim>\<open>A\<close>..\<^verbatim>\<open>Z\<close> to \<^verbatim>\<open>a\<close>..\<^verbatim>\<open>z\<close> and keeps every other character, \<^verbatim>\<open>trim\<close> strips the
  ASCII white space (tab, line feed, vertical tab, form feed, carriage return, space).
  Case mapping and white space beyond ASCII are outside this embedding.
\<close>

definition toLowerChar :: "char \<Rightarrow> char" where
  "toLowerChar c =
     (case map_of (zip ''ABCDEFGHIJKLMNOPQRSTUVWXYZ'' ''abcdefghijklmnopqrstuvwxyz'') c of
        Some l \<Rightarrow> l
      | None \<Rightarrow> c)"

definition toLowerCase :: "string \<Rightarrow> string" where
  "toLowerCase s = map toLowerChar s"

definition isWhitespace :: "char \<Rightarrow> bool" where
  "isWhitespace c = (c \<in> set [CHR 0x09, CHR 0x0A, CHR 0x0B, CHR 0x0C, CHR 0x0D, CHR 0x20])"

definition trim :: "string \<Rightarrow> string" where
  "trim s = rev (dropWhile isWhitespace (rev (dropWhile isWhitespace s)))"

fun startsWith :: "string \<Rightarrow> string \<Rightarrow> bool" where
  "startsWith s [] = True"
| "startsWith [] (c # w) = False"
| "startsWith (a # s) (c # w) = (a = c \<and> startsWith s w)"

text \<open>\<^verbatim>\<open>s.includes(w)\<close>: \<open>w\<close> occurs in \<open>s\<close> as a contiguous substring.\<close>

fun str_includes :: "string \<Rightarrow> string \<Rightarrow> bool" where
  "str_includes [] w = (w = [])"
| "str_includes (a # s) w = (startsWith (a # s) w \<or> str_includes s w)"

text \<open>\<^verbatim>\<open>xs.join(sep)\<close> on an array of strings.\<close>

fun join :: "string \<Rightarrow> string list \<Rightarrow> string" where
  "join sep [] = []"
| "join sep [x] = x"
| "join sep (x # y # ys) = x @ sep @ join sep (y # ys)"

text \<open>
  Decimal rendering of an integer, as a template literal or \<^verbatim>\<open>toString()\<close> gives for
  the integers the widget meets (skill levels, millisecond clocks).
\<close>

fun showNat :: "nat \<Rightarrow> string" where
  "showNat n =
     (if n < 10 then [''0123456789'' ! n]
      else showNat (n div 10) @ [''0123456789'' ! (n mod 10)])"

declare showNat.simps [simp del]

definition showInt :: "int \<Rightarrow> string" where
  "showInt i = (if i < 0 then ''-'' @ showNat (nat (- i)) else showNat (nat i))"

text \<open>
  A property that may be absent: \<open>None\<close> is JavaScript's \<^verbatim>\<open>undefined\<close>. A string is
  truthy when it is present and not empty; a template literal prints \<^verbatim>\<open>undefined\<close>
  for an absent value.
\<close>

definition truthy :: "string option \<Rightarrow> bool" where
  "truthy v = (case v of None \<Rightarrow> False | Some s \<Rightarrow> s \<noteq> [])"

definition toStr :: "string option \<Rightarrow> string" where
  "toStr v = (case v of None \<Rightarrow> ''undefined'' | Some s \<Rightarrow> s)"

section \<open>The records snapshot\<close>

text \<open>
  \<^verbatim>\<open>src/app/data/index.ts\<close> exports the snapshot read from the portfolio JSON:
  \<^verbatim>\<open>hero = raw.hero\<close> (absent when the JSON has none), \<^verbatim>\<open>contact = raw.contact || {}\<close>
  (always an object) and the four collections, each \<^verbatim>\<open>raw.x || []\<close> (always an array).
\<close>

record hero_data =
  h_name :: "string option"
  h_email :: "string option"
  h_location :: "string option"

record contact_data =
  email :: "string option"
  phone :: "string option"
  location :: "string option"

record skill =
  name :: string
  level :: int

record experience =
  role :: string
  company :: string
  period :: string

record project =
  title :: string

record education_entry =
  degree :: string
  institution :: string
  year :: "string option"

record portfolio =
  hero :: "hero_data option"
  contact :: contact_data
  skills :: "skill list"
  projects :: "project list"
  experiences :: "experience list"
  education :: "education_entry list"

section \<open>buildKnowledgeBase\<close>

text \<open>
  Reading a property of an absent \<^verbatim>\<open>hero\<close> without the optional chain raises a
  \<^verbatim>\<open>TypeError\<close>; that is the only way the builder can fail.
\<close>

datatype error = TypeError

text \<open>
  The knowledge base is the object \<^verbatim>\<open>kb\<close>, a \<^verbatim>\<open>Record<string, string>\<close>: the list of
  its properties in insertion order; \<^verbatim>\<open>kb[topic]\<close> is \<open>map_of kb topic\<close>.
\<close>

type_synonym knowledge_base = "(string \<times> string) list"

definition emDash :: string where
  "emDash = [CHR 0xE2, CHR 0x80, CHR 0x94]"

definition kb_skills :: "portfolio \<Rightarrow> string" where
  "kb_skills r =
     (if skills r \<noteq> []
      then ''Top skills: '' @
           join '', '' (map (\<lambda>s. name s @ '' ('' @ showInt (level s) @ ''%)'') (take 8 (skills r))) @
           ''.''
      else ''Skills information is not available.'')"

definition kb_experience :: "portfolio \<Rightarrow> string" where
  "kb_experience r =
     (if experiences r \<noteq> []
      then join ''; ''
             (map (\<lambda>e. role e @ '' at '' @ company e @ '' ('' @ period e @ '')'') (experiences r))
      else ''Experience information is not available.'')"

definition kb_projects :: "portfolio \<Rightarrow> string" where
  "kb_projects r =
     (if projects r \<noteq> []
      then ''Projects: '' @ join ''; '' (map title (take 6 (projects r))) @ ''.''
      else ''Project information is not available.'')"

definition kb_education :: "portfolio \<Rightarrow> string" where
  "kb_education r =
     (if education r \<noteq> []
      then join ''; ''
             (map (\<lambda>ed. degree ed @ '' '' @ emDash @ '' '' @ institution ed @ '' ('' @
                         (if truthy (year ed) then toStr (year ed) else '''') @ '')'')
                  (education r))
      else ''Education information is not available.'')"

text \<open>
  Line 50 reads \<^verbatim>\<open>contact.location || hero.location || 'N/A'\<close>: \<^verbatim>\<open>hero.location\<close> is
  reached only when the contact location is falsy, and raises when \<^verbatim>\<open>hero\<close> is absent.
\<close>

definition contactLocation :: "portfolio \<Rightarrow> error + string" where
  "contactLocation r =
     (if truthy (location (contact r)) then Inr (toStr (location (contact r)))
      else (case hero r of
              None \<Rightarrow> Inl TypeError
            | Some h \<Rightarrow> Inr (if truthy (h_location h) then toStr (h_location h) else ''N/A'')))"

definition kb_contact :: "portfolio \<Rightarrow> error + string" where
  "kb_contact r =
     (if truthy (email (contact r)) \<or> truthy (phone (contact r))
      then (case contactLocation r of
              Inl e \<Rightarrow> Inl e
            | Inr loc \<Rightarrow>
                Inr (''Contact: '' @
                     (if truthy (email (contact r))
                      then toStr (email (contact r)) @
                           (if truthy (phone (contact r))
                            then '' | '' @ toStr (phone (contact r)) else '''')
                      else toStr (phone (contact r))) @
                     ''. Location: '' @ loc))
      else Inr ''Contact information is not available.'')"

text \<open>Line 53 guards both reads: \<^verbatim>\<open>contact?.location || hero?.location || ...\<close>.\<close>

definition kb_location :: "portfolio \<Rightarrow> string" where
  "kb_location r =
     (if truthy (location (contact r)) then toStr (location (contact r))
      else (case hero r of
              None \<Rightarrow> ''Location not set.''
            | Some h \<Rightarrow>
                if truthy (h_location h) then toStr (h_location h) else ''Location not set.''))"

definition kb_technologies :: "portfolio \<Rightarrow> string" where
  "kb_technologies r =
     (if skills r \<noteq> [] then join '', '' (map name (skills r))
      else ''Technologies not listed.'')"

definition kb_availability :: "portfolio \<Rightarrow> string" where
  "kb_availability r =
     (if truthy (email (contact r))
      then ''Reach out via '' @ toStr (email (contact r)) @ '' for opportunities.''
      else ''Availability information not available.'')"

definition kb_strengths :: "portfolio \<Rightarrow> string" where
  "kb_strengths r =
     (if skills r \<noteq> []
      then ''Strengths include '' @ join '', '' (map name (take 4 (skills r))) @ ''.''
      else ''Strengths not available.'')"

definition kb_interests :: string where
  "kb_interests = ''Passionate about automation, AI, and building reliable systems.''"

definition buildKnowledgeBase :: "portfolio \<Rightarrow> error + knowledge_base" where
  "buildKnowledgeBase r =
     (case kb_contact r of
        Inl e \<Rightarrow> Inl e
      | Inr c \<Rightarrow>
          Inr [(''skills'', kb_skills r),
               (''experience'', kb_experience r),
               (''projects'', kb_projects r),
               (''education'', kb_education r),
               (''contact'', c),
               (''location'', kb_location r),
               (''technologies'', kb_technologies r),
               (''availability'', kb_availability r),
               (''strengths'', kb_strengths r),
               (''interests'', kb_interests)])"

text \<open>The ten topics of the knowledge base, in the order the builder assigns them.\<close>

definition topics :: "string list" where
  "topics = [''skills'', ''experience'', ''projects'', ''education'', ''contact'',
             ''location'', ''technologies'', ''availability'', ''strengths'', ''interests'']"

section \<open>findBestMatch\<close>

text \<open>
  The keyword table is an object literal; \<^verbatim>\<open>Object.entries\<close> walks its string keys in
  insertion order, so the table is the list of its entries as written.
\<close>

definition keywords_tbl :: "(string \<times> string list) list" where
  "keywords_tbl =
     [(''skills'', [''skill'', ''technology'', ''tech'', ''know'', ''proficient'', ''good at'', ''expertise'']),
      (''experience'', [''work'', ''job'', ''experience'', ''company'', ''worked'', ''career'', ''employment'']),
      (''projects'', [''project'', ''built'', ''created'', ''portfolio'', ''work'', ''developed'']),
      (''education'', [''education'', ''degree'', ''study'', ''university'', ''learn'', ''course'']),
      (''contact'', [''contact'', ''reach'', ''email'', ''connect'', ''get in touch'', ''hire'']),
      (''location'', [''location'', ''where'', ''based'', ''live'', ''city'']),
      (''availability'', [''available'', ''hire'', ''hiring'', ''looking'', ''job'']),
      (''technologies'', [''use'', ''stack'', ''tools'', ''framework'', ''library'']),
      (''strengths'', [''strength'', ''good'', ''best'', ''achievement'']),
      (''interests'', [''interest'', ''hobby'', ''passion'', ''like'', ''enjoy''])]"

definition fallbackText :: string where
  "fallbackText =
     ''I'' @ [CHR 0x27] @ ''d be happy to tell you more! You can ask me about my skills, '' @
     ''experience, projects, education, contact information, or availability. '' @
     ''What would you like to know?''"

text \<open>
  The \<^verbatim>\<open>for\<close> loop over the entries: the first topic one of whose words occurs in the
  lower-cased query decides, and the result is \<^verbatim>\<open>kb[topic]\<close> (\<open>None\<close> when the object has
  no such property); after the last entry the fallback prompt is returned.
\<close>

fun matchLoop :: "(string \<times> string list) list \<Rightarrow> string \<Rightarrow> knowledge_base \<Rightarrow> string option" where
  "matchLoop [] lowerQuery kb = Some fallbackText"
| "matchLoop ((topic, ws) # rest) lowerQuery kb =
     (if list_ex (\<lambda>word. str_includes lowerQuery word) ws then map_of kb topic
      else matchLoop rest lowerQuery kb)"

definition findBestMatch :: "string \<Rightarrow> knowledge_base \<Rightarrow> string option" where
  "findBestMatch query kb = matchLoop keywords_tbl (toLowerCase query) kb"

section \<open>Matching: priority and examples\<close>

lemma lower_job_query:
  "toLowerCase ''I want a job at your company'' = ''i want a job at your company''"
  by (simp add: toLowerCase_def toLowerChar_def)

text \<open>
  Claim C3. The query "I want a job at your company" contains, lower-cased, the words
  "job" and "company" of the experience topic and the word "job" of the availability
  topic; experience stands before availability in the table, and the matcher returns
  the experience entry of the knowledge base, whatever the knowledge base is.
\<close>

theorem C3_job_query_returns_experience:
  "str_includes (toLowerCase ''I want a job at your company'') ''job''
   \<and> str_includes (toLowerCase ''I want a job at your company'') ''company''
   \<and> map_of keywords_tbl ''experience'' =
       Some [''work'', ''job'', ''experience'', ''company'', ''worked'', ''career'', ''employment'']
   \<and> map_of keywords_tbl ''availability'' = Some [''available'', ''hire'', ''hiring'', ''looking'', ''job'']
   \<and> takeWhile (\<lambda>t. t \<noteq> ''availability'') (map fst keywords_tbl) =
       [''skills'', ''experience'', ''projects'', ''education'', ''contact'', ''location'']
   \<and> findBestMatch ''I want a job at your company'' kb = map_of kb ''experience''"
  by (simp add: findBestMatch_def lower_job_query keywords_tbl_def)

end
